theory Spec2Isabelle
  imports Main
begin

section \<open>Sabadell advisor workflow: data model\<close>

text \<open>
  Source: \<^verbatim>\<open>src/4.MAFAdvisorWorkflowEmail.py\<close>.

  A Python \<^verbatim>\<open>str\<close> is a sequence of Unicode code points, and the source slices one
  (\<^verbatim>\<open>text[:500]\<close>) and writes literals outside ASCII, so a string is modelled as the
  list of its code points. \<open>ascii\<close> embeds an ASCII literal.
\<close>

type_synonym py_str = "nat list"

definition ascii :: "string \<Rightarrow> py_str" where
  "ascii s = map of_char s"

text \<open>\<^verbatim>\<open>sep.join(xs)\<close>\<close>

fun join :: "py_str \<Rightarrow> py_str list \<Rightarrow> py_str" where
  "join sep [] = []"
| "join sep [x] = x"
| "join sep (x # y # ys) = x @ sep @ join sep (y # ys)"

text \<open>
  The exceptions of the run. All of them are subclasses of Python's \<^verbatim>\<open>Exception\<close>, so
  an \<^verbatim>\<open>except Exception\<close> clause catches each one. \<open>ValidationError\<close> is what
  \<^verbatim>\<open>model_validate_json\<close> raises, \<open>ProcessorFailure\<close> what a failing agent call raises;
  each carries the text that \<^verbatim>\<open>str(e)\<close> gives.
\<close>

datatype exn = ValidationError py_str | ProcessorFailure py_str

fun str_exn :: "exn \<Rightarrow> py_str" where
  "str_exn (ValidationError m) = m"
| "str_exn (ProcessorFailure m) = m"

subsection \<open>Structured output models (lines 34-61)\<close>

record NeedProfile =
  product_type :: py_str
  customer_type :: py_str
  key_constraints :: "py_str list"
  missing_info :: "py_str list"
  structured_query :: py_str

record ClarityExplanation =
  summary :: py_str
  pros_cons :: "py_str list"
  cta :: py_str
  full_content :: py_str

record ComplianceReview =
  approved :: bool
  issues :: "py_str list"
  feedback :: py_str
  content :: py_str

record FinalResponse =
  final_content :: py_str

text \<open>
  \<^verbatim>\<open>Model.model_validate_json(text)\<close> belongs to the pydantic library, not to this
  repository: it either returns a record of the model or raises. The three validators the
  source calls are taken as parameters, one field each.
\<close>

record validators =
  NeedProfile_model_validate_json :: "py_str \<Rightarrow> exn + NeedProfile"
  ComplianceReview_model_validate_json :: "py_str \<Rightarrow> exn + ComplianceReview"
  FinalResponse_model_validate_json :: "py_str \<Rightarrow> exn + FinalResponse"

subsection \<open>Messages\<close>

datatype Role = USER | SYSTEM | ASSISTANT

datatype ChatMessage = ChatMessage Role py_str

datatype AgentExecutorRequest =
  AgentExecutorRequest (messages: "ChatMessage list") (should_respond: bool)

text \<open>Of an \<^verbatim>\<open>AgentExecutorResponse\<close> the source reads \<^verbatim>\<open>agent_run_response.text\<close> only.\<close>

datatype AgentExecutorResponse =
  AgentExecutorResponse (agent_run_response_text: py_str)

text \<open>
  The conditions take \<^verbatim>\<open>message: Any\<close>. The shapes a message has in this workflow: an
  agent's response, a request to an agent, a raw string (the customer's question), a chat
  message, and \<^verbatim>\<open>None\<close>.
\<close>

datatype message =
  Response AgentExecutorResponse
| Request AgentExecutorRequest
| Str py_str
| Chat ChatMessage
| NoneValue

fun isinstance_AgentExecutorResponse :: "message \<Rightarrow> bool" where
  "isinstance_AgentExecutorResponse (Response r) = True"
| "isinstance_AgentExecutorResponse m = False"

fun as_response :: "message \<Rightarrow> AgentExecutorResponse option" where
  "as_response (Response r) = Some r"
| "as_response m = None"

section \<open>Conditional routing functions (lines 68-116)\<close>

text \<open>
  A condition returns \<open>Inr b\<close> when the Python function returns \<open>b\<close>, and \<open>Inl e\<close>
  when it raises \<open>e\<close>. The guard \<^verbatim>\<open>if not isinstance(message, AgentExecutorResponse)\<close>
  is the \<open>None\<close> branch of \<open>as_response\<close>; the \<^verbatim>\<open>try\<close> block is the \<open>case\<close> on
  the validator's result, the \<^verbatim>\<open>except Exception\<close> clause its \<open>Inl\<close> branch.
\<close>

definition approved_condition :: "validators \<Rightarrow> message \<Rightarrow> exn + bool" where
  "approved_condition V message =
     (case as_response message of
        None \<Rightarrow> Inr True
      | Some r \<Rightarrow>
          (case ComplianceReview_model_validate_json V (agent_run_response_text r) of
             Inr review \<Rightarrow> Inr (approved review)
           | Inl e \<Rightarrow> Inr False))"

definition rejected_condition :: "validators \<Rightarrow> message \<Rightarrow> exn + bool" where
  "rejected_condition V message =
     (case as_response message of
        None \<Rightarrow> Inr True
      | Some r \<Rightarrow>
          (case ComplianceReview_model_validate_json V (agent_run_response_text r) of
             Inr review \<Rightarrow> Inr (\<not> approved review)
           | Inl e \<Rightarrow> Inr False))"

definition missing_info_condition :: "validators \<Rightarrow> message \<Rightarrow> exn + bool" where
  "missing_info_condition V message =
     (case as_response message of
        None \<Rightarrow> Inr False
      | Some r \<Rightarrow>
          (case NeedProfile_model_validate_json V (agent_run_response_text r) of
             Inr profile \<Rightarrow> Inr (length (missing_info profile) > 0)
           | Inl e \<Rightarrow> Inr False))"

text \<open>
  \<^verbatim>\<open>has_complete_info_condition\<close> prints a line when the parse fails: the second
  component of its result is what it printed.
\<close>

definition has_complete_info_condition ::
  "validators \<Rightarrow> message \<Rightarrow> (exn + bool) \<times> py_str list" where
  "has_complete_info_condition V message =
     (case as_response message of
        None \<Rightarrow> (Inr False, [])
      | Some r \<Rightarrow>
          (case NeedProfile_model_validate_json V (agent_run_response_text r) of
             Inr profile \<Rightarrow>
               (let has_info = (length (missing_info profile) = 0) in (Inr has_info, []))
           | Inl e \<Rightarrow>
               (Inr False, [ascii ''Error parsing NeedProfile: '' @ str_exn e])))"

section \<open>Bridge executors (lines 123-206)\<close>

text \<open>
  What an executor does to its \<^verbatim>\<open>WorkflowContext\<close>: the messages it sent, the outputs it
  yielded, and the lines it printed, each in order.
\<close>

record WorkflowContext =
  sent_messages :: "message list"
  outputs :: "py_str list"
  stdout :: "py_str list"

definition send_message :: "WorkflowContext \<Rightarrow> message \<Rightarrow> WorkflowContext" where
  "send_message ctx m = ctx\<lparr>sent_messages := sent_messages ctx @ [m]\<rparr>"

definition yield_output :: "WorkflowContext \<Rightarrow> py_str \<Rightarrow> WorkflowContext" where
  "yield_output ctx out = ctx\<lparr>outputs := outputs ctx @ [out]\<rparr>"

definition print :: "WorkflowContext \<Rightarrow> py_str \<Rightarrow> WorkflowContext" where
  "print ctx line = ctx\<lparr>stdout := stdout ctx @ [line]\<rparr>"

text \<open>An executor raises (\<open>Inl\<close>) where its validator raises outside a \<^verbatim>\<open>try\<close>.\<close>

definition to_copilot_query ::
  "validators \<Rightarrow> AgentExecutorResponse \<Rightarrow> WorkflowContext \<Rightarrow> exn + WorkflowContext" where
  "to_copilot_query V response ctx =
     (case NeedProfile_model_validate_json V (agent_run_response_text response) of
        Inl e \<Rightarrow> Inl e
      | Inr profile \<Rightarrow>
          (let copilot_query = ChatMessage USER (structured_query profile)
           in Inr (send_message ctx (Request (AgentExecutorRequest [copilot_query] True)))))"

text \<open>
  \<^verbatim>\<open>"Reescribe esta informaci\xf3n de productos bancarios en lenguaje claro para el
  cliente:\n\n"\<close>
\<close>

definition clarity_prompt :: py_str where
  "clarity_prompt =
     ascii ''Reescribe esta informaci'' @ [0xF3] @
     ascii ''n de productos bancarios en lenguaje claro para el cliente:'' @ [10, 10]"

definition to_clarity_request ::
  "AgentExecutorResponse \<Rightarrow> WorkflowContext \<Rightarrow> exn + WorkflowContext" where
  "to_clarity_request response ctx =
     (let copilot_output = agent_run_response_text response;
          clarity_msg = ChatMessage USER (clarity_prompt @ copilot_output)
      in Inr (send_message ctx (Request (AgentExecutorRequest [clarity_msg] True))))"

text \<open>
  \<^verbatim>\<open>"Por favor, revisa el contenido seg\xfan este feedback de cumplimiento
  normativo:\n\n"\<close>
\<close>

definition revision_prompt :: py_str where
  "revision_prompt =
     ascii ''Por favor, revisa el contenido seg'' @ [0xFA] @
     ascii ''n este feedback de cumplimiento normativo:'' @ [10, 10]"

definition to_clarity_revision ::
  "validators \<Rightarrow> AgentExecutorResponse \<Rightarrow> WorkflowContext \<Rightarrow> exn + WorkflowContext" where
  "to_clarity_revision V response ctx =
     (case ComplianceReview_model_validate_json V (agent_run_response_text response) of
        Inl e \<Rightarrow> Inl e
      | Inr review \<Rightarrow>
          (let revision_msg = ChatMessage USER
                 (revision_prompt @
                  ascii ''PROBLEMAS DETECTADOS:'' @ [10] @
                  join [10] (map (\<lambda>issue. ascii ''- '' @ issue) (issues review)) @ [10, 10] @
                  ascii ''FEEDBACK:'' @ [10] @ feedback review @ [10, 10] @
                  ascii ''CONTENIDO ORIGINAL:'' @ [10] @ content review)
           in Inr (send_message ctx (Request (AgentExecutorRequest [revision_msg] True)))))"

text \<open>
  \<^verbatim>\<open>"\U0001f4cb **Necesitamos m\xe1s informaci\xf3n para ayudarte mejor:**\n\n"\<close>
\<close>

definition more_info_header :: py_str where
  "more_info_header =
     [0x1F4CB] @ ascii '' **Necesitamos m'' @ [0xE1] @ ascii ''s informaci'' @ [0xF3] @
     ascii ''n para ayudarte mejor:**'' @ [10, 10]"

definition request_more_info ::
  "validators \<Rightarrow> AgentExecutorResponse \<Rightarrow> WorkflowContext \<Rightarrow> exn + WorkflowContext" where
  "request_more_info V response ctx =
     (case NeedProfile_model_validate_json V (agent_run_response_text response) of
        Inl e \<Rightarrow> Inl e
      | Inr profile \<Rightarrow>
          (let missing_items = join [10] (map (\<lambda>item. ascii ''- '' @ item) (missing_info profile));
               output = more_info_header @ missing_items @ [10, 10] @
                 ascii ''Por favor, proporciona estos datos para poder ofrecerte las mejores opciones del Banco Sabadell.''
           in Inr (yield_output ctx output)))"

text \<open>\<^verbatim>\<open>"\u2705 **RESPUESTA FINAL:**\n\n"\<close>\<close>

definition final_header :: py_str where
  "final_header = [0x2705] @ ascii '' **RESPUESTA FINAL:**'' @ [10, 10]"

text \<open>\<^verbatim>\<open>"\u26a0\ufe0f  Warning: Could not parse Publisher output as JSON: "\<close>\<close>

definition parse_warning :: py_str where
  "parse_warning =
     [0x26A0, 0xFE0F] @ ascii ''  Warning: Could not parse Publisher output as JSON: ''"

text \<open>
  The record field \<open>final_content\<close> is \<^verbatim>\<open>FinalResponse.content\<close> (the name \<open>content\<close> is
  taken by \<^verbatim>\<open>ComplianceReview.content\<close>).
\<close>

definition publish_final_response ::
  "validators \<Rightarrow> AgentExecutorResponse \<Rightarrow> WorkflowContext \<Rightarrow> exn + WorkflowContext" where
  "publish_final_response V response ctx =
     (case FinalResponse_model_validate_json V (agent_run_response_text response) of
        Inr final \<Rightarrow> Inr (yield_output ctx (final_header @ final_content final))
      | Inl e \<Rightarrow>
          (let ctx1 = print ctx (parse_warning @ str_exn e);
               ctx2 = print ctx1
                 (ascii ''Raw output: '' @ take 500 (agent_run_response_text response))
           in Inr (yield_output ctx2 (final_header @ agent_run_response_text response))))"

section \<open>The workflow graph (lines 379-411)\<close>

text \<open>The executors of the graph, named by their \<^verbatim>\<open>id\<close>.\<close>

datatype node =
  Need_profiler
| Request_more_info
| To_copilot_query
| Sabadell_copilot_expert
| To_clarity_request
| Clarity_writer
| Compliance_checker
| Publisher
| Publish_final_response
| To_clarity_revision

text \<open>
  An edge's condition, as the graph calls it: the value returned or the exception raised,
  with the lines printed meanwhile.
\<close>

type_synonym condition = "validators \<Rightarrow> message \<Rightarrow> (exn + bool) \<times> py_str list"

definition silent :: "(validators \<Rightarrow> message \<Rightarrow> exn + bool) \<Rightarrow> condition" where
  "silent c V m = (c V m, [])"

definition start_executor :: node where
  "start_executor = Need_profiler"

text \<open>The \<^verbatim>\<open>add_edge\<close> calls, in the source's order.\<close>

definition edges :: "(node \<times> node \<times> condition option) list" where
  "edges =
     [(Need_profiler, Request_more_info, Some (silent missing_info_condition)),
      (Need_profiler, To_copilot_query, Some has_complete_info_condition),
      (To_copilot_query, Sabadell_copilot_expert, None),
      (Sabadell_copilot_expert, To_clarity_request, None),
      (To_clarity_request, Clarity_writer, None),
      (Clarity_writer, Compliance_checker, None),
      (Compliance_checker, Publisher, Some (silent approved_condition)),
      (Publisher, Publish_final_response, None),
      (Compliance_checker, To_clarity_revision, Some (silent rejected_condition)),
      (To_clarity_revision, Clarity_writer, None)]"

section \<open>The workflow engine\<close>

text \<open>
  The engine that runs the graph (\<^verbatim>\<open>WorkflowBuilder\<close>, \<^verbatim>\<open>AgentExecutor\<close>) and the agents
  behind the five stages are not in the repository's sources. The agents are a parameter:
  \<open>P n k m\<close> is the text that stage \<open>n\<close> answers to message \<open>m\<close> when \<open>k\<close> executors
  have run before it in this run, or the exception of a failed call.
\<close>

type_synonym stage_processors = "node \<Rightarrow> nat \<Rightarrow> message \<Rightarrow> exn + py_str"

definition empty_context :: WorkflowContext where
  "empty_context = \<lparr>sent_messages = [], outputs = [], stdout = []\<rparr>"

text \<open>
  Modelled from the spec: the execution of one node, which the absent engine performs.
  A stage (spec 4.1) passes its input to its processor and emits the answer as an
  \<^verbatim>\<open>AgentExecutorResponse\<close>; a transform or sink (spec 4.3) is the source's executor, applied
  to the \<^verbatim>\<open>AgentExecutorResponse\<close> it is declared to handle, and is not invoked on a
  message of another type.
\<close>

fun run_node ::
  "validators \<Rightarrow> stage_processors \<Rightarrow> nat \<Rightarrow> node \<Rightarrow> message \<Rightarrow> exn + WorkflowContext" where
  "run_node V P k To_copilot_query m =
     (case as_response m of
        Some r \<Rightarrow> to_copilot_query V r empty_context | None \<Rightarrow> Inr empty_context)"
| "run_node V P k To_clarity_request m =
     (case as_response m of
        Some r \<Rightarrow> to_clarity_request r empty_context | None \<Rightarrow> Inr empty_context)"
| "run_node V P k To_clarity_revision m =
     (case as_response m of
        Some r \<Rightarrow> to_clarity_revision V r empty_context | None \<Rightarrow> Inr empty_context)"
| "run_node V P k Request_more_info m =
     (case as_response m of
        Some r \<Rightarrow> request_more_info V r empty_context | None \<Rightarrow> Inr empty_context)"
| "run_node V P k Publish_final_response m =
     (case as_response m of
        Some r \<Rightarrow> publish_final_response V r empty_context | None \<Rightarrow> Inr empty_context)"
| "run_node V P k stage m =
     (case P stage k m of
        Inl e \<Rightarrow> Inl e
      | Inr answer \<Rightarrow> Inr (send_message empty_context (Response (AgentExecutorResponse answer))))"

text \<open>
  Modelled from the spec: the transition rule of the absent engine (spec 4.4). On
  completion of node \<open>n\<close> with output \<open>out\<close>, every outgoing edge of \<open>n\<close> whose condition
  is absent or true delivers \<open>out\<close> to its target. A condition that raises fails the run.
\<close>

fun dispatch ::
  "validators \<Rightarrow> node \<Rightarrow> message \<Rightarrow> (node \<times> node \<times> condition option) list \<Rightarrow>
   (exn + (node \<times> message) list) \<times> py_str list" where
  "dispatch V n out [] = (Inr [], [])"
| "dispatch V n out ((src, dst, c) # es) =
     (if src \<noteq> n then dispatch V n out es
      else
        (case (case c of None \<Rightarrow> (Inr True, []) | Some cond \<Rightarrow> cond V out) of
           (Inl e, printed) \<Rightarrow> (Inl e, printed)
         | (Inr b, printed) \<Rightarrow>
             (case dispatch V n out es of
                (Inl e, printed') \<Rightarrow> (Inl e, printed @ printed')
              | (Inr ds, printed') \<Rightarrow>
                  (Inr ((if b then [(dst, out)] else []) @ ds), printed @ printed'))))"

fun dispatch_all ::
  "validators \<Rightarrow> node \<Rightarrow> message list \<Rightarrow> (exn + (node \<times> message) list) \<times> py_str list" where
  "dispatch_all V n [] = (Inr [], [])"
| "dispatch_all V n (out # outs) =
     (case dispatch V n out edges of
        (Inl e, printed) \<Rightarrow> (Inl e, printed)
      | (Inr ds, printed) \<Rightarrow>
          (case dispatch_all V n outs of
             (Inl e, printed') \<Rightarrow> (Inl e, printed @ printed')
           | (Inr ds', printed') \<Rightarrow> (Inr (ds @ ds'), printed @ printed')))"

text \<open>
  Modelled from the spec: the \<^verbatim>\<open>WorkflowRun\<close> of spec 3, the state of the absent engine:
  the deliveries waiting (node and message), the nodes executed so far, the outputs
  yielded, the lines printed and the run-level error.
\<close>

record WorkflowRun =
  active :: "(node \<times> message) list"
  history :: "node list"
  run_outputs :: "py_str list"
  run_stdout :: "py_str list"
  run_error :: "exn option"

definition start_run :: "py_str \<Rightarrow> WorkflowRun" where
  "start_run question =
     \<lparr>active = [(start_executor, Str question)], history = [], run_outputs = [],
      run_stdout = [], run_error = None\<rparr>"

text \<open>
  Modelled from the spec: one transition of the absent engine. The first waiting delivery
  is executed; a failure of the node aborts the run with that error and emits nothing
  (spec 4.4, 7); otherwise its outputs are recorded and its messages dispatched.
\<close>

definition step :: "validators \<Rightarrow> stage_processors \<Rightarrow> WorkflowRun \<Rightarrow> WorkflowRun" where
  "step V P r =
     (case active r of
        [] \<Rightarrow> r
      | (n, m) # rest \<Rightarrow>
          (case run_node V P (length (history r)) n m of
             Inl e \<Rightarrow> r\<lparr>active := [], history := history r @ [n], run_error := Some e\<rparr>
           | Inr ctx \<Rightarrow>
               (case dispatch_all V n (sent_messages ctx) of
                  (Inl e, printed) \<Rightarrow>
                    r\<lparr>active := [], history := history r @ [n],
                      run_stdout := run_stdout r @ stdout ctx @ printed,
                      run_error := Some e\<rparr>
                | (Inr ds, printed) \<Rightarrow>
                    r\<lparr>active := rest @ ds, history := history r @ [n],
                      run_outputs := run_outputs r @ outputs ctx,
                      run_stdout := run_stdout r @ stdout ctx @ printed\<rparr>)))"

text \<open>
  Modelled from the spec: the absent engine continues until a terminal sink emits output
  or no further edges fire (spec 2), or the run has failed.
\<close>

definition finished :: "WorkflowRun \<Rightarrow> bool" where
  "finished r \<longleftrightarrow> run_error r \<noteq> None \<or> run_outputs r \<noteq> [] \<or> active r = []"

text \<open>\<open>run V P k r\<close>: the run after at most \<open>k\<close> transitions from \<open>r\<close>.\<close>

fun run :: "validators \<Rightarrow> stage_processors \<Rightarrow> nat \<Rightarrow> WorkflowRun \<Rightarrow> WorkflowRun" where
  "run V P 0 r = r"
| "run V P (Suc k) r = (if finished r then r else run V P k (step V P r))"

text \<open>The number of revision requests the run has made so far.\<close>

definition revisions :: "WorkflowRun \<Rightarrow> nat" where
  "revisions r = count_list (history r) To_clarity_revision"

section \<open>Example inputs\<close>

text \<open>
  A validator given by a table: it accepts the listed texts and raises on every other
  text. It stands for pydantic at the concrete inputs below.
\<close>

definition complete_profile :: NeedProfile where
  "complete_profile =
     \<lparr>product_type = ascii ''hipoteca'', customer_type = ascii ''nuevo'',
      key_constraints = [ascii ''tipo fijo''], missing_info = [],
      structured_query = ascii ''Cliente nuevo busca hipoteca a tipo fijo.''\<rparr>"

definition incomplete_profile :: NeedProfile where
  "incomplete_profile =
     \<lparr>product_type = ascii ''sin especificar'', customer_type = ascii ''sin especificar'',
      key_constraints = [], missing_info = [ascii ''tipo de producto''],
      structured_query = []\<rparr>"

definition blank_profile :: NeedProfile where
  "blank_profile =
     \<lparr>product_type = ascii ''hipoteca'', customer_type = ascii ''nuevo'',
      key_constraints = [], missing_info = [], structured_query = []\<rparr>"

definition example_review :: "bool \<Rightarrow> ComplianceReview" where
  "example_review ok =
     \<lparr>approved = ok, issues = (if ok then [] else [ascii ''falta disclaimer'']),
      feedback = (if ok then [] else ascii ''incluir disclaimer''),
      content = ascii ''Hipotecas a tipo fijo''\<rparr>"

definition invalid_json :: exn where
  "invalid_json = ValidationError (ascii ''Invalid JSON'')"

definition example_validators :: validators where
  "example_validators =
     \<lparr>NeedProfile_model_validate_json =
        (\<lambda>t. if t = ascii ''profile: complete'' then Inr complete_profile
             else if t = ascii ''profile: incomplete'' then Inr incomplete_profile
             else if t = ascii ''profile: blank'' then Inr blank_profile
             else Inl invalid_json),
      ComplianceReview_model_validate_json =
        (\<lambda>t. if t = ascii ''review: approved'' then Inr (example_review True)
             else if t = ascii ''review: rejected'' then Inr (example_review False)
             else Inl invalid_json),
      FinalResponse_model_validate_json =
        (\<lambda>t. if t = ascii ''final: ok''
             then Inr \<lparr>final_content = ascii ''## Hipotecas''\<rparr>
             else Inl invalid_json)\<rparr>"

text \<open>Stage processors whose Compliance Checker rejects every time.\<close>

fun rejecting_processors :: stage_processors where
  "rejecting_processors Need_profiler k m = Inr (ascii ''profile: complete'')"
| "rejecting_processors Compliance_checker k m = Inr (ascii ''review: rejected'')"
| "rejecting_processors Publisher k m = Inr (ascii ''final: ok'')"
| "rejecting_processors stage k m = Inr (ascii ''texto'')"

text \<open>
  The invariant that the specification states of a \<^verbatim>\<open>NeedProfile\<close>: an empty
  \<^verbatim>\<open>missing_info\<close> comes with a non-empty \<^verbatim>\<open>structured_query\<close>. The class (lines 34-40)
  declares the five fields and no validator.
\<close>

definition NeedProfile_invariant :: "NeedProfile \<Rightarrow> bool" where
  "NeedProfile_invariant p \<longleftrightarrow> (missing_info p = [] \<longrightarrow> structured_query p \<noteq> [])"

section \<open>Runs that stay in the graph\<close>

text \<open>
  \<open>expects V n m\<close>: node \<open>n\<close>, given message \<open>m\<close>, will pass a message on rather than
  end the run: a stage always answers here, a transform needs a response it can parse
  (and, for the two guarded ones, one that its incoming edge lets through), and the sinks
  and the Publisher lead out of the graph.
\<close>

fun expects :: "validators \<Rightarrow> node \<Rightarrow> message \<Rightarrow> bool" where
  "expects V To_copilot_query m =
     (case as_response m of
        None \<Rightarrow> False
      | Some r \<Rightarrow>
          (case NeedProfile_model_validate_json V (agent_run_response_text r) of
             Inl e \<Rightarrow> False | Inr p \<Rightarrow> missing_info p = []))"
| "expects V To_clarity_revision m =
     (case as_response m of
        None \<Rightarrow> False
      | Some r \<Rightarrow>
          (case ComplianceReview_model_validate_json V (agent_run_response_text r) of
             Inl e \<Rightarrow> False | Inr review \<Rightarrow> \<not> approved review))"
| "expects V To_clarity_request m = isinstance_AgentExecutorResponse m"
| "expects V Request_more_info m = False"
| "expects V Publisher m = False"
| "expects V Publish_final_response m = False"
| "expects V stage m = True"

text \<open>The node that the message of an expected delivery reaches next.\<close>

fun successor :: "node \<Rightarrow> node" where
  "successor Need_profiler = To_copilot_query"
| "successor To_copilot_query = Sabadell_copilot_expert"
| "successor Sabadell_copilot_expert = To_clarity_request"
| "successor To_clarity_request = Clarity_writer"
| "successor Clarity_writer = Compliance_checker"
| "successor Compliance_checker = To_clarity_revision"
| "successor To_clarity_revision = Clarity_writer"
| "successor n = n"

text \<open>A run with exactly one delivery waiting, at node \<open>n\<close>, no output and no error.\<close>

definition on_track :: "validators \<Rightarrow> node \<Rightarrow> WorkflowRun \<Rightarrow> bool" where
  "on_track V n r \<longleftrightarrow>
     run_error r = None \<and> run_outputs r = [] \<and> (\<exists>m. active r = [(n, m)] \<and> expects V n m)"

section \<open>Routing conditions\<close>

lemma as_response_None:
  "as_response m = None \<longleftrightarrow> \<not> isinstance_AgentExecutorResponse m"
  by (cases m) simp_all

lemma example_rejects_hola:
  "NeedProfile_model_validate_json example_validators (ascii ''hola'') = Inl invalid_json"
  "ComplianceReview_model_validate_json example_validators (ascii ''hola'') = Inl invalid_json"
  "FinalResponse_model_validate_json example_validators (ascii ''hola'') = Inl invalid_json"
  by (simp_all add: example_validators_def ascii_def)

text \<open>
  C1, as stated, fails: a message that is not an \<^verbatim>\<open>AgentExecutorResponse\<close>, such as the
  raw string \<^verbatim>\<open>"hola"\<close>, which does not parse as a \<^verbatim>\<open>ComplianceReview\<close>, makes
  \<^verbatim>\<open>approved_condition\<close> return true (the guard of line 70).
\<close>

theorem fail_closed_counterexample:
  "ComplianceReview_model_validate_json example_validators (ascii ''hola'') = Inl invalid_json
   \<and> approved_condition example_validators (Str (ascii ''hola'')) = Inr True"
  by (simp add: example_rejects_hola approved_condition_def)

text \<open>
  C1, amended: for every \<^verbatim>\<open>AgentExecutorResponse\<close> whose text fails to parse as the
  expected record, \<^verbatim>\<open>has_complete_info_condition\<close>, \<^verbatim>\<open>missing_info_condition\<close> and
  \<^verbatim>\<open>approved_condition\<close> return false and do not raise; for every message that is not an
  \<^verbatim>\<open>AgentExecutorResponse\<close>, \<^verbatim>\<open>has_complete_info_condition\<close> and
  \<^verbatim>\<open>missing_info_condition\<close> return false.
\<close>

theorem fail_closed_on_responses:
  "(NeedProfile_model_validate_json V t = Inl e \<longrightarrow>
      fst (has_complete_info_condition V (Response (AgentExecutorResponse t))) = Inr False \<and>
      missing_info_condition V (Response (AgentExecutorResponse t)) = Inr False) \<and>
   (ComplianceReview_model_validate_json V t = Inl e' \<longrightarrow>
      approved_condition V (Response (AgentExecutorResponse t)) = Inr False) \<and>
   (\<not> isinstance_AgentExecutorResponse m \<longrightarrow>
      fst (has_complete_info_condition V m) = Inr False \<and>
      missing_info_condition V m = Inr False)"
  by (cases m)
     (simp_all add: has_complete_info_condition_def missing_info_condition_def
        approved_condition_def)

theorem fail_closed_on_responses_witness:
  "NeedProfile_model_validate_json example_validators (ascii ''hola'') = Inl invalid_json
   \<and> ComplianceReview_model_validate_json example_validators (ascii ''hola'') = Inl invalid_json
   \<and> \<not> isinstance_AgentExecutorResponse NoneValue
   \<and> fst (has_complete_info_condition example_validators
        (Response (AgentExecutorResponse (ascii ''hola'')))) = Inr False
   \<and> missing_info_condition example_validators
        (Response (AgentExecutorResponse (ascii ''hola''))) = Inr False
   \<and> approved_condition example_validators
        (Response (AgentExecutorResponse (ascii ''hola''))) = Inr False
   \<and> fst (has_complete_info_condition example_validators NoneValue) = Inr False
   \<and> missing_info_condition example_validators NoneValue = Inr False"
  using fail_closed_on_responses
    [of example_validators "ascii ''hola''" invalid_json invalid_json NoneValue]
  by (simp add: example_rejects_hola)

text \<open>
  C2, as stated, fails: on \<^verbatim>\<open>None\<close>, which is not an \<^verbatim>\<open>AgentExecutorResponse\<close>, both
  \<^verbatim>\<open>approved_condition\<close> and \<^verbatim>\<open>rejected_condition\<close> return true.
\<close>

theorem exclusive_counterexample:
  "approved_condition example_validators NoneValue = Inr True
   \<and> rejected_condition example_validators NoneValue = Inr True"
  by (simp add: approved_condition_def rejected_condition_def)

text \<open>
  C2, amended: for every \<^verbatim>\<open>AgentExecutorResponse\<close> message at most one of
  \<^verbatim>\<open>approved_condition\<close> and \<^verbatim>\<open>rejected_condition\<close> returns true, and for every message
  at most one of \<^verbatim>\<open>missing_info_condition\<close> and \<^verbatim>\<open>has_complete_info_condition\<close> returns
  true.
\<close>

theorem exclusive_on_responses:
  "(isinstance_AgentExecutorResponse m \<longrightarrow>
      \<not> (approved_condition V m = Inr True \<and> rejected_condition V m = Inr True)) \<and>
   \<not> (missing_info_condition V m = Inr True \<and>
      fst (has_complete_info_condition V m) = Inr True)"
  by (cases m)
     (auto simp: approved_condition_def rejected_condition_def missing_info_condition_def
        has_complete_info_condition_def split: sum.splits)

theorem exclusive_on_responses_witness:
  "isinstance_AgentExecutorResponse (Response (AgentExecutorResponse (ascii ''review: rejected'')))
   \<and> \<not> (approved_condition example_validators
            (Response (AgentExecutorResponse (ascii ''review: rejected''))) = Inr True \<and>
          rejected_condition example_validators
            (Response (AgentExecutorResponse (ascii ''review: rejected''))) = Inr True)
   \<and> \<not> (missing_info_condition example_validators
            (Response (AgentExecutorResponse (ascii ''review: rejected''))) = Inr True \<and>
          fst (has_complete_info_condition example_validators
            (Response (AgentExecutorResponse (ascii ''review: rejected'')))) = Inr True)"
  using exclusive_on_responses
    [of "Response (AgentExecutorResponse (ascii ''review: rejected''))" example_validators]
  by simp

text \<open>
  C3: for every response whose text is a well-formed \<^verbatim>\<open>ComplianceReview\<close> \<open>r\<close>,
  \<^verbatim>\<open>approved_condition\<close> returns \<open>approved r\<close> and \<^verbatim>\<open>rejected_condition\<close> returns its
  negation.
\<close>

theorem approved_rejected_well_formed:
  assumes "ComplianceReview_model_validate_json V t = Inr r"
  shows "approved_condition V (Response (AgentExecutorResponse t)) = Inr (approved r)
       \<and> rejected_condition V (Response (AgentExecutorResponse t)) = Inr (\<not> approved r)"
  using assms by (simp add: approved_condition_def rejected_condition_def)

theorem approved_rejected_well_formed_witness:
  "ComplianceReview_model_validate_json example_validators (ascii ''review: approved'')
     = Inr (example_review True)
   \<and> approved_condition example_validators
        (Response (AgentExecutorResponse (ascii ''review: approved''))) = Inr True
   \<and> rejected_condition example_validators
        (Response (AgentExecutorResponse (ascii ''review: approved''))) = Inr False"
proof -
  have h: "ComplianceReview_model_validate_json example_validators (ascii ''review: approved'')
     = Inr (example_review True)"
    by (simp add: example_validators_def ascii_def)
  show ?thesis
    using h approved_rejected_well_formed [OF h] by (simp add: example_review_def)
qed

text \<open>
  C4: for every response whose text is a well-formed \<^verbatim>\<open>NeedProfile\<close>, these are
  equivalent: its \<^verbatim>\<open>missing_info\<close> is empty, \<^verbatim>\<open>has_complete_info_condition\<close> returns true,
  \<^verbatim>\<open>missing_info_condition\<close> returns false; and each condition returns the negation of the
  other.
\<close>

theorem complete_info_equivalent:
  assumes "NeedProfile_model_validate_json V t = Inr p"
  shows "(missing_info p = [] \<longleftrightarrow>
            fst (has_complete_info_condition V (Response (AgentExecutorResponse t))) = Inr True)
       \<and> (missing_info p = [] \<longleftrightarrow>
            missing_info_condition V (Response (AgentExecutorResponse t)) = Inr False)
       \<and> fst (has_complete_info_condition V (Response (AgentExecutorResponse t)))
           = Inr (missing_info p = [])
       \<and> missing_info_condition V (Response (AgentExecutorResponse t))
           = Inr (missing_info p \<noteq> [])"
  using assms by (simp add: has_complete_info_condition_def missing_info_condition_def)

theorem complete_info_equivalent_witness:
  "NeedProfile_model_validate_json example_validators (ascii ''profile: incomplete'')
     = Inr incomplete_profile
   \<and> missing_info incomplete_profile \<noteq> []
   \<and> fst (has_complete_info_condition example_validators
        (Response (AgentExecutorResponse (ascii ''profile: incomplete'')))) = Inr False
   \<and> missing_info_condition example_validators
        (Response (AgentExecutorResponse (ascii ''profile: incomplete''))) = Inr True"
proof -
  have h: "NeedProfile_model_validate_json example_validators (ascii ''profile: incomplete'')
     = Inr incomplete_profile"
    by (simp add: example_validators_def ascii_def)
  show ?thesis
    using h complete_info_equivalent [OF h] by (simp add: incomplete_profile_def)
qed

text \<open>
  C5: the four routing conditions are total: on every message each returns a boolean and
  does not raise.
\<close>

theorem conditions_total:
  "(\<exists>b. approved_condition V m = Inr b) \<and> (\<exists>b. rejected_condition V m = Inr b) \<and>
   (\<exists>b. missing_info_condition V m = Inr b) \<and>
   (\<exists>b. fst (has_complete_info_condition V m) = Inr b)"
  by (auto simp: approved_condition_def rejected_condition_def missing_info_condition_def
        has_complete_info_condition_def split: option.split sum.split)

text \<open>
  C10: on every message that is not an \<^verbatim>\<open>AgentExecutorResponse\<close>, \<^verbatim>\<open>approved_condition\<close>
  and \<^verbatim>\<open>rejected_condition\<close> return true, \<^verbatim>\<open>missing_info_condition\<close> and
  \<^verbatim>\<open>has_complete_info_condition\<close> return false.
\<close>

theorem pass_through_not_response:
  assumes "\<not> isinstance_AgentExecutorResponse m"
  shows "approved_condition V m = Inr True \<and> rejected_condition V m = Inr True
       \<and> missing_info_condition V m = Inr False
       \<and> fst (has_complete_info_condition V m) = Inr False"
  using assms
  by (simp add: approved_condition_def rejected_condition_def missing_info_condition_def
        has_complete_info_condition_def as_response_None [symmetric])

theorem pass_through_not_response_witness:
  "\<not> isinstance_AgentExecutorResponse (Str (ascii ''review: approved''))
   \<and> approved_condition example_validators (Str (ascii ''review: approved'')) = Inr True
   \<and> rejected_condition example_validators (Str (ascii ''review: approved'')) = Inr True
   \<and> missing_info_condition example_validators (Str (ascii ''review: approved'')) = Inr False
   \<and> fst (has_complete_info_condition example_validators (Str (ascii ''review: approved'')))
       = Inr False"
  using pass_through_not_response [of "Str (ascii ''review: approved'')" example_validators]
  by simp

section \<open>Executors\<close>

text \<open>
  C6: for every response whose text is a well-formed \<^verbatim>\<open>NeedProfile\<close>,
  \<^verbatim>\<open>to_copilot_query\<close> sends exactly one request, holding exactly one user message whose
  text is the profile's \<^verbatim>\<open>structured_query\<close>, unchanged; it yields and prints nothing.
\<close>

theorem to_copilot_query_verbatim:
  assumes "NeedProfile_model_validate_json V t = Inr p"
  shows "to_copilot_query V (AgentExecutorResponse t) ctx =
           Inr (ctx\<lparr>sent_messages := sent_messages ctx @
                  [Request (AgentExecutorRequest [ChatMessage USER (structured_query p)] True)]\<rparr>)"
  using assms by (simp add: to_copilot_query_def send_message_def)

theorem to_copilot_query_verbatim_witness:
  "NeedProfile_model_validate_json example_validators (ascii ''profile: complete'')
     = Inr complete_profile
   \<and> to_copilot_query example_validators
        (AgentExecutorResponse (ascii ''profile: complete'')) empty_context =
      Inr \<lparr>sent_messages =
             [Request (AgentExecutorRequest
                [ChatMessage USER (ascii ''Cliente nuevo busca hipoteca a tipo fijo.'')] True)],
           outputs = [], stdout = []\<rparr>"
proof -
  have h: "NeedProfile_model_validate_json example_validators (ascii ''profile: complete'')
     = Inr complete_profile"
    by (simp add: example_validators_def ascii_def)
  show ?thesis
    using h to_copilot_query_verbatim [OF h, of empty_context]
    by (simp add: complete_profile_def empty_context_def)
qed

text \<open>
  C7: when the Publisher's text does not parse as a \<^verbatim>\<open>FinalResponse\<close>,
  \<^verbatim>\<open>publish_final_response\<close> does not raise: it prints two diagnostic lines (the warning
  with the error, and the first 500 characters of the raw text) and yields the fixed header
  followed by the raw text. When the text parses, it yields the header followed by the
  parsed \<^verbatim>\<open>content\<close> and prints nothing.
\<close>

theorem publish_final_response_fallback:
  "(FinalResponse_model_validate_json V t = Inl e \<longrightarrow>
      publish_final_response V (AgentExecutorResponse t) ctx =
        Inr (ctx\<lparr>outputs := outputs ctx @ [final_header @ t],
                 stdout := stdout ctx @
                   [parse_warning @ str_exn e, ascii ''Raw output: '' @ take 500 t]\<rparr>)) \<and>
   (FinalResponse_model_validate_json V t' = Inr final \<longrightarrow>
      publish_final_response V (AgentExecutorResponse t') ctx =
        Inr (ctx\<lparr>outputs := outputs ctx @ [final_header @ final_content final]\<rparr>))"
  by (simp add: publish_final_response_def yield_output_def print_def)

theorem publish_final_response_fallback_witness:
  "FinalResponse_model_validate_json example_validators (ascii ''hola'') = Inl invalid_json
   \<and> FinalResponse_model_validate_json example_validators (ascii ''final: ok'')
       = Inr \<lparr>final_content = ascii ''## Hipotecas''\<rparr>
   \<and> publish_final_response example_validators (AgentExecutorResponse (ascii ''hola''))
        empty_context =
      Inr \<lparr>sent_messages = [], outputs = [final_header @ ascii ''hola''],
           stdout = [parse_warning @ ascii ''Invalid JSON'',
                     ascii ''Raw output: '' @ ascii ''hola'']\<rparr>
   \<and> publish_final_response example_validators (AgentExecutorResponse (ascii ''final: ok''))
        empty_context =
      Inr \<lparr>sent_messages = [], outputs = [final_header @ ascii ''## Hipotecas''],
           stdout = []\<rparr>"
proof -
  have h: "FinalResponse_model_validate_json example_validators (ascii ''hola'') = Inl invalid_json"
    "FinalResponse_model_validate_json example_validators (ascii ''final: ok'')
       = Inr \<lparr>final_content = ascii ''## Hipotecas''\<rparr>"
    by (simp_all add: example_validators_def ascii_def)
  have "take 500 (ascii ''hola'') = ascii ''hola''"
    by (simp add: ascii_def)
  then show ?thesis
    using h publish_final_response_fallback
      [of example_validators "ascii ''hola''" invalid_json empty_context "ascii ''final: ok''"
          "\<lparr>final_content = ascii ''## Hipotecas''\<rparr>"]
    by (simp add: empty_context_def invalid_json_def)
qed

text \<open>
  C9, as stated, fails: the class declares five typed fields and no validator, so the
  record with an empty \<^verbatim>\<open>missing_info\<close> and an empty \<^verbatim>\<open>structured_query\<close> is a
  \<^verbatim>\<open>NeedProfile\<close>, and it breaks the invariant.
\<close>

theorem need_profile_invariant_counterexample:
  "missing_info blank_profile = [] \<and> structured_query blank_profile = []
   \<and> \<not> NeedProfile_invariant blank_profile"
  by (simp add: NeedProfile_invariant_def blank_profile_def)

text \<open>
  C9, amended: the invariant is not enforced on a \<^verbatim>\<open>NeedProfile\<close>. For every response
  whose text is a well-formed \<^verbatim>\<open>NeedProfile\<close> with an empty \<^verbatim>\<open>missing_info\<close>,
  \<^verbatim>\<open>has_complete_info_condition\<close> returns true and \<^verbatim>\<open>to_copilot_query\<close> forwards
  \<^verbatim>\<open>structured_query\<close> as it is, and the record satisfies the invariant exactly when that
  forwarded query is non-empty.
\<close>

theorem need_profile_query_unchecked:
  assumes "NeedProfile_model_validate_json V t = Inr p" and "missing_info p = []"
  shows "fst (has_complete_info_condition V (Response (AgentExecutorResponse t))) = Inr True
       \<and> to_copilot_query V (AgentExecutorResponse t) ctx =
           Inr (send_message ctx
                  (Request (AgentExecutorRequest [ChatMessage USER (structured_query p)] True)))
       \<and> (NeedProfile_invariant p \<longleftrightarrow> structured_query p \<noteq> [])"
  using assms
  by (simp add: has_complete_info_condition_def to_copilot_query_def NeedProfile_invariant_def)

theorem need_profile_query_unchecked_witness:
  "NeedProfile_model_validate_json example_validators (ascii ''profile: blank'')
     = Inr blank_profile
   \<and> missing_info blank_profile = []
   \<and> fst (has_complete_info_condition example_validators
        (Response (AgentExecutorResponse (ascii ''profile: blank'')))) = Inr True
   \<and> to_copilot_query example_validators
        (AgentExecutorResponse (ascii ''profile: blank'')) empty_context =
      Inr \<lparr>sent_messages = [Request (AgentExecutorRequest [ChatMessage USER []] True)],
           outputs = [], stdout = []\<rparr>
   \<and> \<not> NeedProfile_invariant blank_profile"
proof -
  have h: "NeedProfile_model_validate_json example_validators (ascii ''profile: blank'')
     = Inr blank_profile"
    by (simp add: example_validators_def ascii_def)
  have e: "missing_info blank_profile = []"
    by (simp add: blank_profile_def)
  show ?thesis
    using h e need_profile_query_unchecked [OF h e, of empty_context]
    by (simp add: blank_profile_def empty_context_def send_message_def)
qed

section \<open>The revision cycle\<close>

lemma dispatch_need_profiler:
  assumes "NeedProfile_model_validate_json V t = Inr p" "missing_info p = []"
  shows "dispatch V Need_profiler (Response (AgentExecutorResponse t)) edges
       = (Inr [(To_copilot_query, Response (AgentExecutorResponse t))], [])"
  using assms
  by (simp add: edges_def silent_def missing_info_condition_def has_complete_info_condition_def)

lemma dispatch_compliance_checker:
  assumes "ComplianceReview_model_validate_json V t = Inr review" "\<not> approved review"
  shows "dispatch V Compliance_checker (Response (AgentExecutorResponse t)) edges
       = (Inr [(To_clarity_revision, Response (AgentExecutorResponse t))], [])"
  using assms
  by (simp add: edges_def silent_def approved_condition_def rejected_condition_def)

lemma dispatch_unconditional:
  "dispatch V To_copilot_query m edges = (Inr [(Sabadell_copilot_expert, m)], [])"
  "dispatch V Sabadell_copilot_expert m edges = (Inr [(To_clarity_request, m)], [])"
  "dispatch V To_clarity_request m edges = (Inr [(Clarity_writer, m)], [])"
  "dispatch V Clarity_writer m edges = (Inr [(Compliance_checker, m)], [])"
  "dispatch V To_clarity_revision m edges = (Inr [(Clarity_writer, m)], [])"
  by (simp_all add: edges_def)

lemma finished_on_track: "on_track V n r \<Longrightarrow> \<not> finished r"
  by (auto simp: on_track_def finished_def)

lemma step_single:
  assumes "active r = [(n, m)]" "run_node V P (length (history r)) n m = Inr ctx"
    "sent_messages ctx = [out]" "outputs ctx = []"
    "dispatch V n out edges = (Inr [(n', out)], [])" "stdout ctx = []"
  shows "step V P r = r\<lparr>active := [(n', out)], history := history r @ [n]\<rparr>"
  using assms by (simp add: step_def)


lemma step_on_track:
  assumes np: "\<forall>k m. \<exists>t p. P Need_profiler k m = Inr t \<and>
                 NeedProfile_model_validate_json V t = Inr p \<and> missing_info p = []"
    and ex: "\<forall>k m. \<exists>t. P Sabadell_copilot_expert k m = Inr t"
    and cw: "\<forall>k m. \<exists>t. P Clarity_writer k m = Inr t"
    and cc: "\<forall>k m. \<exists>t review. P Compliance_checker k m = Inr t \<and>
                 ComplianceReview_model_validate_json V t = Inr review \<and> \<not> approved review"
    and tr: "on_track V n r"
  shows "on_track V (successor n) (step V P r) \<and> history (step V P r) = history r @ [n]"
proof -
  from tr obtain m where clean: "run_error r = None" "run_outputs r = []"
    and act: "active r = [(n, m)]" and exp: "expects V n m"
    by (auto simp: on_track_def)
  let ?k = "length (history r)"
  have goal: "on_track V (successor n) (r\<lparr>active := [(successor n, out)], history := history r @ [n]\<rparr>)
      \<and> history (r\<lparr>active := [(successor n, out)], history := history r @ [n]\<rparr>) = history r @ [n]"
    if "expects V (successor n) out" for out
    using that clean by (simp add: on_track_def)
  show ?thesis
  proof (cases n)
    case Need_profiler
    from np obtain t p where t: "P Need_profiler ?k m = Inr t"
      "NeedProfile_model_validate_json V t = Inr p" "missing_info p = []" by blast
    let ?out = "Response (AgentExecutorResponse t)"
    have "step V P r = r\<lparr>active := [(To_copilot_query, ?out)], history := history r @ [n]\<rparr>"
      using act t Need_profiler
      by (intro step_single [where m = m and ctx = "send_message empty_context ?out"])
         (simp_all add: send_message_def empty_context_def dispatch_need_profiler)
    moreover have "expects V To_copilot_query ?out" using t by simp
    ultimately show ?thesis using goal [of ?out] Need_profiler by simp
  next
    case To_copilot_query
    from exp To_copilot_query obtain a p where m: "m = Response a"
      and p: "NeedProfile_model_validate_json V (agent_run_response_text a) = Inr p"
      by (cases m) (auto split: sum.splits)
    let ?out = "Request (AgentExecutorRequest [ChatMessage USER (structured_query p)] True)"
    have "step V P r = r\<lparr>active := [(Sabadell_copilot_expert, ?out)], history := history r @ [n]\<rparr>"
      using act m p To_copilot_query
      by (intro step_single [where m = m and ctx = "send_message empty_context ?out"])
         (simp_all add: to_copilot_query_def send_message_def empty_context_def dispatch_unconditional)
    then show ?thesis using goal [of ?out] To_copilot_query by simp
  next
    case Sabadell_copilot_expert
    from ex obtain t where t: "P Sabadell_copilot_expert ?k m = Inr t" by blast
    let ?out = "Response (AgentExecutorResponse t)"
    have "step V P r = r\<lparr>active := [(To_clarity_request, ?out)], history := history r @ [n]\<rparr>"
      using act t Sabadell_copilot_expert
      by (intro step_single [where m = m and ctx = "send_message empty_context ?out"])
         (simp_all add: send_message_def empty_context_def dispatch_unconditional)
    then show ?thesis using goal [of ?out] Sabadell_copilot_expert by simp
  next
    case To_clarity_request
    from exp To_clarity_request obtain a where m: "m = Response a"
      by (cases m) auto
    let ?out = "Request (AgentExecutorRequest
                  [ChatMessage USER (clarity_prompt @ agent_run_response_text a)] True)"
    have "step V P r = r\<lparr>active := [(Clarity_writer, ?out)], history := history r @ [n]\<rparr>"
      using act m To_clarity_request
      by (intro step_single [where m = m and ctx = "send_message empty_context ?out"])
         (simp_all add: to_clarity_request_def send_message_def empty_context_def dispatch_unconditional)
    then show ?thesis using goal [of ?out] To_clarity_request by simp
  next
    case Clarity_writer
    from cw obtain t where t: "P Clarity_writer ?k m = Inr t" by blast
    let ?out = "Response (AgentExecutorResponse t)"
    have "step V P r = r\<lparr>active := [(Compliance_checker, ?out)], history := history r @ [n]\<rparr>"
      using act t Clarity_writer
      by (intro step_single [where m = m and ctx = "send_message empty_context ?out"])
         (simp_all add: send_message_def empty_context_def dispatch_unconditional)
    then show ?thesis using goal [of ?out] Clarity_writer by simp
  next
    case Compliance_checker
    from cc obtain t review where t: "P Compliance_checker ?k m = Inr t"
      "ComplianceReview_model_validate_json V t = Inr review" "\<not> approved review" by blast
    let ?out = "Response (AgentExecutorResponse t)"
    have "step V P r = r\<lparr>active := [(To_clarity_revision, ?out)], history := history r @ [n]\<rparr>"
      using act t Compliance_checker
      by (intro step_single [where m = m and ctx = "send_message empty_context ?out"])
         (simp_all add: send_message_def empty_context_def dispatch_compliance_checker)
    moreover have "expects V To_clarity_revision ?out" using t by simp
    ultimately show ?thesis using goal [of ?out] Compliance_checker by simp
  next
    case To_clarity_revision
    from exp To_clarity_revision obtain a review where m: "m = Response a"
      and p: "ComplianceReview_model_validate_json V (agent_run_response_text a) = Inr review"
      by (cases m) (auto split: sum.splits)
    from p obtain out where
      run: "to_clarity_revision V a empty_context
              = Inr (send_message empty_context (Request out))"
      by (simp add: to_clarity_revision_def)
    have "step V P r = r\<lparr>active := [(Clarity_writer, Request out)], history := history r @ [n]\<rparr>"
      using act m run To_clarity_revision
      by (intro step_single [where m = m and ctx = "send_message empty_context (Request out)"])
         (simp_all add: send_message_def empty_context_def dispatch_unconditional)
    then show ?thesis using goal [of "Request out"] To_clarity_revision by simp
  qed (use exp in simp_all)
qed


lemma run_finished: "finished r \<Longrightarrow> run V P k r = r"
  by (cases k) simp_all

lemma run_add: "run V P (a + b) r = run V P b (run V P a r)"
  by (induction a arbitrary: r) (simp_all add: run_finished)

lemma revisions_append: "history r' = history r @ [n] \<Longrightarrow>
    revisions r' = revisions r + (if n = To_clarity_revision then 1 else 0)"
  by (simp add: revisions_def)

lemma run_on_track:
  assumes np: "\<forall>k m. \<exists>t p. P Need_profiler k m = Inr t \<and>
                 NeedProfile_model_validate_json V t = Inr p \<and> missing_info p = []"
    and ex: "\<forall>k m. \<exists>t. P Sabadell_copilot_expert k m = Inr t"
    and cw: "\<forall>k m. \<exists>t. P Clarity_writer k m = Inr t"
    and cc: "\<forall>k m. \<exists>t review. P Compliance_checker k m = Inr t \<and>
                 ComplianceReview_model_validate_json V t = Inr review \<and> \<not> approved review"
  shows "on_track V n r \<Longrightarrow> \<exists>n'. on_track V n' (run V P k r)"
proof (induction k arbitrary: n r)
  case 0
  then show ?case by auto
next
  case (Suc k)
  from step_on_track [OF np ex cw cc Suc.prems]
  have "on_track V (successor n) (step V P r)" by simp
  from Suc.IH [OF this] finished_on_track [OF Suc.prems] show ?case by simp
qed

lemma start_on_track: "on_track V Need_profiler (start_run question)"
  by (simp add: on_track_def start_run_def start_executor_def)

lemma run_next:
  assumes np: "\<forall>k m. \<exists>t p. P Need_profiler k m = Inr t \<and>
                 NeedProfile_model_validate_json V t = Inr p \<and> missing_info p = []"
    and ex: "\<forall>k m. \<exists>t. P Sabadell_copilot_expert k m = Inr t"
    and cw: "\<forall>k m. \<exists>t. P Clarity_writer k m = Inr t"
    and cc: "\<forall>k m. \<exists>t review. P Compliance_checker k m = Inr t \<and>
                 ComplianceReview_model_validate_json V t = Inr review \<and> \<not> approved review"
    and tr: "on_track V n (run V P k r)"
  shows "on_track V (successor n) (run V P (Suc k) r)"
    and "revisions (run V P (Suc k) r)
         = revisions (run V P k r) + (if n = To_clarity_revision then 1 else 0)"
proof -
  have "run V P (Suc k) r = run V P (Suc 0) (run V P k r)"
    using run_add [of V P k "Suc 0" r] by (simp del: run.simps)
  also have "\<dots> = step V P (run V P k r)"
    using finished_on_track [OF tr] by simp
  finally have eq: "run V P (Suc k) r = step V P (run V P k r)" .
  from step_on_track [OF np ex cw cc tr]
  have st: "on_track V (successor n) (step V P (run V P k r))"
    and hi: "history (step V P (run V P k r)) = history (run V P k r) @ [n]"
    by blast+
  show "on_track V (successor n) (run V P (Suc k) r)"
    using st by (simp only: eq)
  show "revisions (run V P (Suc k) r)
         = revisions (run V P k r) + (if n = To_clarity_revision then 1 else 0)"
    using revisions_append [OF hi] by (simp only: eq)
qed

lemma run_rejecting:
  assumes np: "\<forall>k m. \<exists>t p. P Need_profiler k m = Inr t \<and>
                 NeedProfile_model_validate_json V t = Inr p \<and> missing_info p = []"
    and ex: "\<forall>k m. \<exists>t. P Sabadell_copilot_expert k m = Inr t"
    and cw: "\<forall>k m. \<exists>t. P Clarity_writer k m = Inr t"
    and cc: "\<forall>k m. \<exists>t review. P Compliance_checker k m = Inr t \<and>
                 ComplianceReview_model_validate_json V t = Inr review \<and> \<not> approved review"
  shows "on_track V Clarity_writer (run V P (4 + 3 * k) (start_run question)) \<and>
         revisions (run V P (4 + 3 * k) (start_run question)) = k"
proof (induction k)
  case 0
  let ?s = "start_run question"
  note nx = run_next [OF np ex cw cc]
  have t0: "on_track V Need_profiler (run V P 0 ?s)"
    using start_on_track by simp
  have c0: "revisions (run V P 0 ?s) = 0"
    by (simp add: revisions_def start_run_def)
  have t1: "on_track V To_copilot_query (run V P (Suc 0) ?s)"
    using nx(1) [OF t0] by (simp del: run.simps)
  have c1: "revisions (run V P (Suc 0) ?s) = 0"
    using nx(2) [OF t0] c0 by (simp del: run.simps)
  have t2: "on_track V Sabadell_copilot_expert (run V P (Suc (Suc 0)) ?s)"
    using nx(1) [OF t1] by (simp del: run.simps)
  have c2: "revisions (run V P (Suc (Suc 0)) ?s) = 0"
    using nx(2) [OF t1] c1 by (simp del: run.simps)
  have t3: "on_track V To_clarity_request (run V P (Suc (Suc (Suc 0))) ?s)"
    using nx(1) [OF t2] by (simp del: run.simps)
  have c3: "revisions (run V P (Suc (Suc (Suc 0))) ?s) = 0"
    using nx(2) [OF t2] c2 by (simp del: run.simps)
  have t4: "on_track V Clarity_writer (run V P (Suc (Suc (Suc (Suc 0)))) ?s)"
    using nx(1) [OF t3] by (simp del: run.simps)
  have c4: "revisions (run V P (Suc (Suc (Suc (Suc 0)))) ?s) = 0"
    using nx(2) [OF t3] c3 by (simp del: run.simps)
  have e: "4 + 3 * (0::nat) = Suc (Suc (Suc (Suc 0)))" by simp
  show ?case using t4 c4 by (simp only: e)
next
  case (Suc k)
  let ?s = "start_run question"
  let ?j = "4 + 3 * k"
  note nx = run_next [OF np ex cw cc]
  from Suc have t0: "on_track V Clarity_writer (run V P ?j ?s)"
    and c0: "revisions (run V P ?j ?s) = k" by blast+
  have t1: "on_track V Compliance_checker (run V P (Suc ?j) ?s)"
    using nx(1) [OF t0] by (simp del: run.simps)
  have c1: "revisions (run V P (Suc ?j) ?s) = k"
    using nx(2) [OF t0] c0 by (simp del: run.simps)
  have t2: "on_track V To_clarity_revision (run V P (Suc (Suc ?j)) ?s)"
    using nx(1) [OF t1] by (simp del: run.simps)
  have c2: "revisions (run V P (Suc (Suc ?j)) ?s) = k"
    using nx(2) [OF t1] c1 by (simp del: run.simps)
  have t3: "on_track V Clarity_writer (run V P (Suc (Suc (Suc ?j))) ?s)"
    using nx(1) [OF t2] by (simp del: run.simps)
  have c3: "revisions (run V P (Suc (Suc (Suc ?j))) ?s) = Suc k"
    using nx(2) [OF t2] c2 by (simp del: run.simps)
  have e: "4 + 3 * Suc k = Suc (Suc (Suc (4 + 3 * k)))" by simp
  show ?case using t3 c3 by (simp only: e)
qed

lemma rejecting_hyps:
  "\<forall>k m. \<exists>t p. rejecting_processors Need_profiler k m = Inr t \<and>
      NeedProfile_model_validate_json example_validators t = Inr p \<and> missing_info p = []"
  "\<forall>k m. \<exists>t. rejecting_processors Sabadell_copilot_expert k m = Inr t"
  "\<forall>k m. \<exists>t. rejecting_processors Clarity_writer k m = Inr t"
  "\<forall>k m. \<exists>t review. rejecting_processors Compliance_checker k m = Inr t \<and>
      ComplianceReview_model_validate_json example_validators t = Inr review \<and> \<not> approved review"
  by (simp_all add: example_validators_def complete_profile_def example_review_def ascii_def)


text \<open>
  C8, as stated, fails: the graph configures no maximum revision count. With a Compliance
  Checker that rejects every time, the run has made twelve revision requests after forty
  transitions and has neither stopped nor failed.
\<close>

theorem revision_loop_counterexample:
  "\<not> finished (run example_validators rejecting_processors 40
        (start_run (ascii ''Quiero hipoteca'')))
   \<and> run_error (run example_validators rejecting_processors 40
        (start_run (ascii ''Quiero hipoteca''))) = None
   \<and> revisions (run example_validators rejecting_processors 40
        (start_run (ascii ''Quiero hipoteca''))) = 12"
  using run_rejecting [OF rejecting_hyps, of 12 "ascii ''Quiero hipoteca''"]
  by (auto simp: on_track_def finished_def)

text \<open>
  C8, amended: in every run in which the Need Profiler reports no missing information, the
  Product Expert and the Clarity Writer answer, and the Compliance Checker always returns a
  review with \<^verbatim>\<open>approved\<close> false, the workflow as built never stops: after any number of
  transitions the run is unfinished (no output, no error, a delivery waiting), and after
  \<open>4 + 3 * k\<close> transitions it has made \<open>k\<close> revision requests. No revision bound exists
  in the graph.
\<close>

theorem revision_loop_unbounded:
  assumes "\<forall>k m. \<exists>t p. P Need_profiler k m = Inr t \<and>
             NeedProfile_model_validate_json V t = Inr p \<and> missing_info p = []"
    and "\<forall>k m. \<exists>t. P Sabadell_copilot_expert k m = Inr t"
    and "\<forall>k m. \<exists>t. P Clarity_writer k m = Inr t"
    and "\<forall>k m. \<exists>t review. P Compliance_checker k m = Inr t \<and>
             ComplianceReview_model_validate_json V t = Inr review \<and> \<not> approved review"
  shows "\<not> finished (run V P n (start_run question))
       \<and> revisions (run V P (4 + 3 * k) (start_run question)) = k"
proof -
  from run_on_track [OF assms start_on_track]
  obtain n' where "on_track V n' (run V P n (start_run question))" by blast
  then have "\<not> finished (run V P n (start_run question))"
    by (rule finished_on_track)
  with run_rejecting [OF assms, of k question] show ?thesis by blast
qed

theorem revision_loop_unbounded_witness:
  "(\<forall>k m. \<exists>t p. rejecting_processors Need_profiler k m = Inr t \<and>
      NeedProfile_model_validate_json example_validators t = Inr p \<and> missing_info p = [])
   \<and> (\<forall>k m. \<exists>t. rejecting_processors Sabadell_copilot_expert k m = Inr t)
   \<and> (\<forall>k m. \<exists>t. rejecting_processors Clarity_writer k m = Inr t)
   \<and> (\<forall>k m. \<exists>t review. rejecting_processors Compliance_checker k m = Inr t \<and>
        ComplianceReview_model_validate_json example_validators t = Inr review \<and>
        \<not> approved review)
   \<and> \<not> finished (run example_validators rejecting_processors 100 (start_run (ascii ''hola'')))
   \<and> revisions (run example_validators rejecting_processors 19 (start_run (ascii ''hola''))) = 5"
  using rejecting_hyps
    revision_loop_unbounded [OF rejecting_hyps, of 100 "ascii ''hola''" 5]
  by simp

end
